theory Spec2Isabelle
  imports Main "HOL-Library.Multiset"
begin

section \<open>Strings of the Go runtime\<close>

text \<open>
  A Go string is a sequence of bytes: \<open>len\<close> counts bytes and \<open>s[i]\<close> reads one.
  It is modelled as a \<open>char list\<close>. Go's \<open>int\<close> is modelled as \<open>int\<close>; every
  index below is bounded by the length of a slice or string, so no arithmetic wraps.
\<close>

definition newline :: char where
  "newline = CHR 0x0A"

definition space :: char where
  "space = CHR 0x20"

text \<open>\<open>strings.Split(s, "\n")\<close>: the pieces between separators; never empty.\<close>

fun splitOn :: "char \<Rightarrow> string \<Rightarrow> string list" where
  "splitOn c [] = [[]]"
| "splitOn c (x # xs) =
     (if x = c then [] # splitOn c xs
      else (case splitOn c xs of
              [] \<Rightarrow> [[x]]
            | l # ls \<Rightarrow> (x # l) # ls))"

section \<open>The diff engine (package difftui)\<close>

record diffLine =
  lineNum :: int
  content :: string
  isDiff :: bool
  isAdded :: bool

text \<open>The body of the loop of \<open>computeDiff\<close> at index \<open>i\<close>: the entry appended to
  \<open>leftDiff\<close> and the entry appended to \<open>rightDiff\<close>.\<close>

definition oldLineAt :: "string list \<Rightarrow> nat \<Rightarrow> string" where
  "oldLineAt oldLines i = (if i < length oldLines then oldLines ! i else '''')"

definition newLineAt :: "string list \<Rightarrow> nat \<Rightarrow> string" where
  "newLineAt newLines i = (if i < length newLines then newLines ! i else '''')"

definition leftEntry :: "string list \<Rightarrow> string list \<Rightarrow> nat \<Rightarrow> diffLine" where
  "leftEntry oldLines newLines i =
     (let oldLine = oldLineAt oldLines i;
          newLine = newLineAt newLines i;
          isDifferent = (oldLine \<noteq> newLine)
      in if i < length oldLines
         then \<lparr>lineNum = int i + 1, content = oldLine, isDiff = isDifferent, isAdded = False\<rparr>
         else \<lparr>lineNum = 0, content = '''', isDiff = False, isAdded = False\<rparr>)"

definition rightEntry :: "string list \<Rightarrow> string list \<Rightarrow> nat \<Rightarrow> diffLine" where
  "rightEntry oldLines newLines i =
     (let oldLine = oldLineAt oldLines i;
          newLine = newLineAt newLines i;
          isDifferent = (oldLine \<noteq> newLine)
      in if i < length newLines
         then \<lparr>lineNum = int i + 1, content = newLine,
               isDiff = (isDifferent \<and> oldLine \<noteq> ''''), isAdded = (oldLine = '''')\<rparr>
         else \<lparr>lineNum = 0, content = '''', isDiff = False, isAdded = False\<rparr>)"

function computeDiff_loop ::
  "string list \<Rightarrow> string list \<Rightarrow> nat \<Rightarrow> nat \<Rightarrow> diffLine list \<Rightarrow> diffLine list
     \<Rightarrow> diffLine list \<times> diffLine list" where
  "computeDiff_loop oldLines newLines maxLen i leftDiff rightDiff =
     (if i < maxLen
      then computeDiff_loop oldLines newLines maxLen (i + 1)
             (leftDiff @ [leftEntry oldLines newLines i])
             (rightDiff @ [rightEntry oldLines newLines i])
      else (leftDiff, rightDiff))"
  by pat_completeness auto
termination
  by (relation "measure (\<lambda>(oldLines, newLines, maxLen, i, leftDiff, rightDiff). maxLen - i)") auto

definition computeDiff :: "string list \<Rightarrow> string list \<Rightarrow> diffLine list \<times> diffLine list" where
  "computeDiff oldLines newLines =
     (let maxLen = (if length newLines > length oldLines then length newLines
                    else length oldLines)
      in computeDiff_loop oldLines newLines maxLen 0 [] [])"

text \<open>The comparison as \<open>updateViewportContent\<close> runs it on the two values.\<close>

definition Compare :: "string \<Rightarrow> string \<Rightarrow> diffLine list \<times> diffLine list" where
  "Compare oldValue newValue =
     computeDiff (splitOn newline oldValue) (splitOn newline newValue)"

text \<open>
  How \<open>renderDiffLines\<close> reads an entry. An entry with line number 0 is drawn as the
  empty placeholder. Otherwise the gutter mark is chosen by the chain
  \<open>isLeft && isDiff\<close> (\<open>-\<close>), \<open>!isLeft && isAdded\<close> (\<open>+\<close>), \<open>!isLeft && isDiff\<close> (\<open>~\<close>),
  else the plain bar.
\<close>

datatype classification = Unchanged | Removed | Added | Changed

definition isPlaceholder :: "diffLine \<Rightarrow> bool" where
  "isPlaceholder line = (lineNum line = 0)"

definition classify :: "bool \<Rightarrow> diffLine \<Rightarrow> classification" where
  "classify isLeft line =
     (if isLeft \<and> isDiff line then Removed
      else if \<not> isLeft \<and> isAdded line then Added
      else if \<not> isLeft \<and> isDiff line then Changed
      else Unchanged)"

text \<open>The entry as the specification's data model reads it: an optional source line
  number, the text, and the classification on the given side.\<close>

definition specView :: "bool \<Rightarrow> diffLine \<Rightarrow> int option \<times> string \<times> classification" where
  "specView isLeft line =
     (if lineNum line = 0 then None else Some (lineNum line), content line,
      classify isLeft line)"

section \<open>Properties of the diff engine\<close>

lemma computeDiff_loop_eq:
  "computeDiff_loop oldLines newLines maxLen i leftDiff rightDiff =
     (leftDiff @ map (leftEntry oldLines newLines) [i..<maxLen],
      rightDiff @ map (rightEntry oldLines newLines) [i..<maxLen])"
proof (induction oldLines newLines maxLen i leftDiff rightDiff rule: computeDiff_loop.induct)
  case (1 oldLines newLines maxLen i leftDiff rightDiff)
  show ?case
  proof (cases "i < maxLen")
    case True
    then have "[i..<maxLen] = i # [i + 1..<maxLen]"
      by (simp add: upt_conv_Cons)
    with True "1.IH" show ?thesis
      by (subst computeDiff_loop.simps) simp
  next
    case False
    then show ?thesis
      by (subst computeDiff_loop.simps) simp
  qed
qed

lemma computeDiff_eq:
  "computeDiff oldLines newLines =
     (map (leftEntry oldLines newLines) [0..<max (length oldLines) (length newLines)],
      map (rightEntry oldLines newLines) [0..<max (length oldLines) (length newLines)])"
proof -
  have "(if length newLines > length oldLines then length newLines else length oldLines)
          = max (length oldLines) (length newLines)"
    by simp
  then show ?thesis
    by (simp only: computeDiff_def Let_def computeDiff_loop_eq append_Nil)
qed

lemma computeDiff_left_nth:
  "i < max (length oldLines) (length newLines) \<Longrightarrow>
     fst (computeDiff oldLines newLines) ! i = leftEntry oldLines newLines i"
  by (simp add: computeDiff_eq)

lemma computeDiff_right_nth:
  "i < max (length oldLines) (length newLines) \<Longrightarrow>
     snd (computeDiff oldLines newLines) ! i = rightEntry oldLines newLines i"
  by (simp add: computeDiff_eq)

lemmas diff_eval = computeDiff_eq leftEntry_def rightEntry_def oldLineAt_def newLineAt_def
  Let_def upt_rec specView_def classify_def isPlaceholder_def Compare_def newline_def

lemma computeDiff_only_new:
  assumes "length oldLines \<le> i" and "i < length newLines"
  shows "fst (computeDiff oldLines newLines) ! i =
           \<lparr>lineNum = 0, content = '''', isDiff = False, isAdded = False\<rparr>"
    and "isPlaceholder (fst (computeDiff oldLines newLines) ! i)"
    and "lineNum (snd (computeDiff oldLines newLines) ! i) = int i + 1"
    and "content (snd (computeDiff oldLines newLines) ! i) = newLines ! i"
    and "classify False (snd (computeDiff oldLines newLines) ! i) = Added"
  using assms
  by (simp_all add: computeDiff_left_nth computeDiff_right_nth leftEntry_def rightEntry_def
        oldLineAt_def newLineAt_def isPlaceholder_def classify_def Let_def)

lemma computeDiff_only_old:
  assumes "i < length oldLines" and "length newLines \<le> i"
  shows "snd (computeDiff oldLines newLines) ! i =
           \<lparr>lineNum = 0, content = '''', isDiff = False, isAdded = False\<rparr>"
    and "isPlaceholder (snd (computeDiff oldLines newLines) ! i)"
    and "lineNum (fst (computeDiff oldLines newLines) ! i) = int i + 1"
    and "content (fst (computeDiff oldLines newLines) ! i) = oldLines ! i"
    and "classify True (fst (computeDiff oldLines newLines) ! i) =
           (if oldLines ! i = '''' then Unchanged else Removed)"
  using assms
  by (simp_all add: computeDiff_left_nth computeDiff_right_nth leftEntry_def rightEntry_def
        oldLineAt_def newLineAt_def isPlaceholder_def classify_def Let_def)

text \<open>
  Claim C3. Where only one side has a line at a position, the other side holds a
  placeholder; a lone new line is classified Added and a lone old line is meant to be
  classified Removed. The comment in \<open>computeDiff\<close> says the left entry is marked
  "if line is different or removed", but the mark is computed as \<open>oldLine != newLine\<close>
  with the absent new line read as the empty string. A removed line that is itself empty
  is therefore left unmarked: for the old value \<open>"a\n"\<close> and the new value \<open>"a"\<close>,
  position 1 has only the old (empty) line, the right entry is a placeholder, and the
  left entry carries line number 2 and is drawn as Unchanged, not Removed.
\<close>

theorem computeDiff_removed_empty_line_unmarked:
  "splitOn newline (''a'' @ [newline]) = [''a'', ''''] \<and>
   splitOn newline ''a'' = [''a''] \<and>
   specView True (fst (Compare (''a'' @ [newline]) ''a'') ! 1) = (Some 2, '''', Unchanged) \<and>
   isPlaceholder (snd (Compare (''a'' @ [newline]) ''a'') ! 1)"
  by (simp add: diff_eval)

text \<open>
  Claim C4. At every position where both lines are present and differ, the left entry is
  classified Removed, and the right entry is classified Changed when the old line is
  non-empty and Added when the old line is empty.
\<close>

theorem computeDiff_both_present_differ:
  assumes "i < length oldLines" and "i < length newLines" and "oldLines ! i \<noteq> newLines ! i"
  shows "classify True (fst (computeDiff oldLines newLines) ! i) = Removed \<and>
         classify False (snd (computeDiff oldLines newLines) ! i) =
           (if oldLines ! i \<noteq> '''' then Changed else Added)"
  using assms
  by (simp add: computeDiff_left_nth computeDiff_right_nth leftEntry_def rightEntry_def
        oldLineAt_def newLineAt_def classify_def Let_def)

theorem computeDiff_both_present_differ_witness:
  "classify True (fst (computeDiff [''k'', ''''] [''v'', ''w'']) ! 0) = Removed \<and>
   classify False (snd (computeDiff [''k'', ''''] [''v'', ''w'']) ! 0) = Changed \<and>
   classify True (fst (computeDiff [''k'', ''''] [''v'', ''w'']) ! 1) = Removed \<and>
   classify False (snd (computeDiff [''k'', ''''] [''v'', ''w'']) ! 1) = Added"
  using computeDiff_both_present_differ [of 0 "[''k'', '''']" "[''v'', ''w'']"]
        computeDiff_both_present_differ [of 1 "[''k'', '''']" "[''v'', ''w'']"]
  by simp

text \<open>
  Claim C5, as stated: comparing \<open>"secret1\n"\<close> with \<open>"secret2\n"\<close> yields exactly one
  entry on each side. It does not: splitting on the newline leaves a trailing empty line
  on both sides, so each side has two entries.
\<close>

theorem Compare_secret_scenario_not_single_entry:
  "\<not> (map (specView True) (fst (Compare (''secret1'' @ [newline]) (''secret2'' @ [newline])))
         = [(Some 1, ''secret1'', Removed)] \<and>
       map (specView False) (snd (Compare (''secret1'' @ [newline]) (''secret2'' @ [newline])))
         = [(Some 1, ''secret2'', Changed)])"
  by (simp add: diff_eval)

text \<open>
  Claim C5, amended: comparing \<open>"secret1\n"\<close> with \<open>"secret2\n"\<close> yields two entries on
  each side. The first entries are line 1 with text \<open>secret1\<close>, Removed, on the left and
  line 1 with text \<open>secret2\<close>, Changed, on the right; the second entries are line 2 with
  empty text on both sides (the line after the final newline), Unchanged on the left.
\<close>

theorem Compare_secret_scenario:
  "map (specView True) (fst (Compare (''secret1'' @ [newline]) (''secret2'' @ [newline])))
     = [(Some 1, ''secret1'', Removed), (Some 2, '''', Unchanged)] \<and>
   map (\<lambda>line. (fst (specView False line), fst (snd (specView False line))))
       (snd (Compare (''secret1'' @ [newline]) (''secret2'' @ [newline])))
     = [(Some 1, ''secret2''), (Some 2, '''')] \<and>
   classify False (snd (Compare (''secret1'' @ [newline]) (''secret2'' @ [newline])) ! 0)
     = Changed"
  by (simp add: diff_eval)

text \<open>
  Claim C10. The two sequences returned by the diff computation have the same length,
  the larger of the two numbers of input lines, and every entry at position \<open>i\<close> that is
  not a placeholder carries line number \<open>i + 1\<close>.
\<close>

theorem computeDiff_lengths_and_line_numbers:
  "length (fst (computeDiff oldLines newLines)) = max (length oldLines) (length newLines) \<and>
   length (snd (computeDiff oldLines newLines)) = max (length oldLines) (length newLines) \<and>
   (\<forall>i < max (length oldLines) (length newLines).
      (\<not> isPlaceholder (fst (computeDiff oldLines newLines) ! i) \<longrightarrow>
          lineNum (fst (computeDiff oldLines newLines) ! i) = int i + 1) \<and>
      (\<not> isPlaceholder (snd (computeDiff oldLines newLines) ! i) \<longrightarrow>
          lineNum (snd (computeDiff oldLines newLines) ! i) = int i + 1))"
  by (simp add: computeDiff_eq leftEntry_def rightEntry_def isPlaceholder_def Let_def)

theorem computeDiff_lengths_and_line_numbers_witness:
  "length (fst (computeDiff [''a'', ''b''] [''c''])) = 2 \<and>
   length (snd (computeDiff [''a'', ''b''] [''c''])) = 2 \<and>
   lineNum (fst (computeDiff [''a'', ''b''] [''c'']) ! 1) = 2 \<and>
   lineNum (snd (computeDiff [''a'', ''b''] [''c'']) ! 0) = 1 \<and>
   isPlaceholder (snd (computeDiff [''a'', ''b''] [''c'']) ! 1)"
  using computeDiff_lengths_and_line_numbers [of "[''a'', ''b'']" "[''c'']"]
  by (simp add: diff_eval)

section \<open>The edit workflow (package edit)\<close>

text \<open>
  \<open>runEdit\<close> talks to the key vault, the file system, the editor process and the
  terminal. Each of these calls is an event of the run, and its outcome is read from a
  \<open>world\<close>: one fixed answer per call, an error being the error's message. The run
  is the list of events in the order the code performs them, together with the way the
  process ends.
\<close>

text \<open>\<open>keyvault.SecretVersion\<close>. A timestamp is a pointer to a \<open>time.Time\<close>: \<open>None\<close>
  is the nil pointer, and an instant is an integer.\<close>

record SecretVersion =
  Version :: string
  Value :: string
  Enabled :: bool
  CreatedOn :: "int option"
  UpdatedOn :: "int option"
  ExpiresOn :: "int option"
  Tags :: "(string \<times> string) list"

record world =
  editorFlag :: string
  envEDITOR :: string
  newClientResult :: "string option"
  listResult :: "string + SecretVersion list"
  createTempResult :: "string + string"
  openEditorResult :: "string option"
  readFileResult :: "string + string"
  reviewResult :: "string + bool"
  setSecretResult :: "string option"
  secureDeleteResult :: "string option"

datatype failure =
    ClientFailed string
  | ListFailed string
  | NoVersionsFound string
  | TempFileFailed string
  | EditorFailed string
  | ReadFailed string
  | DiffViewerFailed string
  | UpdateFailed string

datatype message =
    MsgEditing string string
  | MsgOpeningEditor string
  | MsgNoChanges
  | MsgReviewChanges
  | MsgDiscarded
  | MsgUpdated string
  | MsgError failure
  | MsgDeleteWarning string

datatype event =
    CallNewClient string
  | CallListSecretVersions string
  | CreateSecureTempFile string
  | OpenEditor string string
  | ReadFile string
  | RunReview string string string
  | CallSetSecret string string
  | SecureDelete string
  | Stdout message
  | Stderr message

text \<open>
  How the process ends: \<open>runEdit\<close> returns, the process exits through \<open>os.Exit\<close>
  with a status, or a run-time panic unwinds the function. Go runs the deferred calls of
  a function when it returns or panics; \<open>os.Exit\<close> ends the process at once and runs
  no deferred call.
\<close>

datatype ending = Returned | Exited int | Panicked

type_synonym run = "event list \<times> ending"

definition ExitWithError :: "failure \<Rightarrow> event list \<Rightarrow> run" where
  "ExitWithError err trace = (trace @ [Stderr (MsgError err)], Exited 1)"

definition getEditor :: "world \<Rightarrow> string" where
  "getEditor w =
     (if editorFlag w \<noteq> '''' then editorFlag w
      else if envEDITOR w \<noteq> '''' then envEDITOR w
      else ''vim'')"

text \<open>The deferred function of \<open>runEdit\<close>: \<open>secureDelete\<close>, with a warning on
  standard error when it fails.\<close>

definition deferredRelease :: "world \<Rightarrow> string \<Rightarrow> event list" where
  "deferredRelease w tempFile =
     SecureDelete tempFile #
     (case secureDeleteResult w of
        None \<Rightarrow> []
      | Some err \<Rightarrow> [Stderr (MsgDeleteWarning err)])"

definition runDeferred :: "world \<Rightarrow> string \<Rightarrow> run \<Rightarrow> run" where
  "runDeferred w tempFile r =
     (case snd r of
        Exited code \<Rightarrow> r
      | Returned \<Rightarrow> (fst r @ deferredRelease w tempFile, Returned)
      | Panicked \<Rightarrow> (fst r @ deferredRelease w tempFile, Panicked))"

text \<open>The statements of \<open>runEdit\<close> after the \<open>defer\<close>, from the first
  \<open>fmt.Printf\<close> to the end of the function.\<close>

definition afterReview ::
  "world \<Rightarrow> string \<Rightarrow> string \<Rightarrow> bool \<Rightarrow> event list \<Rightarrow> run" where
  "afterReview w secretName newValueStr confirmed trace =
     (if \<not> confirmed then (trace @ [Stdout MsgDiscarded], Returned)
      else
        (case setSecretResult w of
           Some err \<Rightarrow>
             ExitWithError (UpdateFailed err) (trace @ [CallSetSecret secretName newValueStr])
         | None \<Rightarrow>
             (trace @ [CallSetSecret secretName newValueStr, Stdout (MsgUpdated secretName)],
              Returned)))"

definition afterRead ::
  "world \<Rightarrow> string \<Rightarrow> SecretVersion \<Rightarrow> string \<Rightarrow> event list \<Rightarrow> run" where
  "afterRead w secretName latestVersion newValueStr trace =
     (if newValueStr = Value latestVersion then (trace @ [Stdout MsgNoChanges], Returned)
      else
        (case reviewResult w of
           Inl err \<Rightarrow>
             ExitWithError (DiffViewerFailed err)
               (trace @ [Stdout MsgReviewChanges,
                         RunReview (Value latestVersion) newValueStr secretName])
         | Inr confirmed \<Rightarrow>
             afterReview w secretName newValueStr confirmed
               (trace @ [Stdout MsgReviewChanges,
                         RunReview (Value latestVersion) newValueStr secretName])))"

definition afterDefer ::
  "world \<Rightarrow> string \<Rightarrow> SecretVersion \<Rightarrow> string \<Rightarrow> string \<Rightarrow> event list \<Rightarrow> run" where
  "afterDefer w secretName latestVersion editorCmd tempFile trace =
     (if length (Version latestVersion) < 8 then (trace, Panicked)
      else
        (let trace1 = trace @ [Stdout (MsgEditing secretName (take 8 (Version latestVersion))),
                               Stdout (MsgOpeningEditor editorCmd),
                               OpenEditor editorCmd tempFile]
         in case openEditorResult w of
              Some err \<Rightarrow> ExitWithError (EditorFailed err) trace1
            | None \<Rightarrow>
                (case readFileResult w of
                   Inl err \<Rightarrow> ExitWithError (ReadFailed err) (trace1 @ [ReadFile tempFile])
                 | Inr newValue \<Rightarrow>
                     afterRead w secretName latestVersion newValue
                       (trace1 @ [ReadFile tempFile]))))"

definition runEdit :: "world \<Rightarrow> string \<Rightarrow> string \<Rightarrow> run" where
  "runEdit w vaultName secretName =
     (let vaultURL = ''https://'' @ vaultName @ ''.vault.azure.net/'';
          trace0 = [CallNewClient vaultURL]
      in case newClientResult w of
           Some err \<Rightarrow> ExitWithError (ClientFailed err) trace0
         | None \<Rightarrow>
             (let trace1 = trace0 @ [CallListSecretVersions secretName]
              in case listResult w of
                   Inl err \<Rightarrow> ExitWithError (ListFailed err) trace1
                 | Inr versions \<Rightarrow>
                     (case versions of
                        [] \<Rightarrow> ExitWithError (NoVersionsFound secretName) trace1
                      | latestVersion # rest \<Rightarrow>
                          (let editorCmd = getEditor w;
                               trace2 = trace1 @ [CreateSecureTempFile (Value latestVersion)]
                           in case createTempResult w of
                                Inl err \<Rightarrow> ExitWithError (TempFileFailed err) trace2
                              | Inr tempFile \<Rightarrow>
                                  runDeferred w tempFile
                                    (afterDefer w secretName latestVersion editorCmd
                                       tempFile trace2)))))"

text \<open>What the claims speak of, read off a run.\<close>

fun isSecureDelete :: "event \<Rightarrow> bool" where
  "isSecureDelete (SecureDelete tempFile) = True"
| "isSecureDelete e = False"

fun isCreateTemp :: "event \<Rightarrow> bool" where
  "isCreateTemp (CreateSecureTempFile v) = True"
| "isCreateTemp e = False"

fun isRunReview :: "event \<Rightarrow> bool" where
  "isRunReview (RunReview old new name) = True"
| "isRunReview e = False"

fun isSetSecret :: "event \<Rightarrow> bool" where
  "isSetSecret (CallSetSecret name v) = True"
| "isSetSecret e = False"

fun isUpdated :: "event \<Rightarrow> bool" where
  "isUpdated (Stdout (MsgUpdated name)) = True"
| "isUpdated e = False"

definition released :: "run \<Rightarrow> bool" where
  "released r = list_ex isSecureDelete (fst r)"

definition scratchCreated :: "world \<Rightarrow> run \<Rightarrow> bool" where
  "scratchCreated w r = (list_ex isCreateTemp (fst r) \<and> \<not> isl (createTempResult w))"

definition reviewStarted :: "run \<Rightarrow> bool" where
  "reviewStarted r = list_ex isRunReview (fst r)"

definition setSecretInvoked :: "run \<Rightarrow> bool" where
  "setSecretInvoked r = list_ex isSetSecret (fst r)"

definition committed :: "run \<Rightarrow> bool" where
  "committed r = list_ex isUpdated (fst r)"

section \<open>Properties of the edit workflow\<close>

text \<open>Sample worlds: every call succeeds and the editor leaves the file as it was;
  the editor fails; reading the edited file fails.\<close>

definition sampleVersion :: SecretVersion where
  "sampleVersion =
     \<lparr>Version = ''0123456789abcdef0123456789abcdef'', Value = ''secret1'' @ [newline],
      Enabled = True, CreatedOn = Some 1700000000, UpdatedOn = Some 1700000000,
      ExpiresOn = None, Tags = []\<rparr>"

definition calmWorld :: world where
  "calmWorld =
     \<lparr>editorFlag = '''', envEDITOR = '''', newClientResult = None,
      listResult = Inr [sampleVersion],
      createTempResult = Inr ''/tmp/kv-secret-00112233445566778899aabbccddeeff.tmp'',
      openEditorResult = None, readFileResult = Inr (''secret1'' @ [newline]),
      reviewResult = Inr True, setSecretResult = None, secureDeleteResult = None\<rparr>"

definition editorFailsWorld :: world where
  "editorFailsWorld = calmWorld\<lparr>openEditorResult := Some ''exit status 1''\<rparr>"

definition readFailsWorld :: world where
  "readFailsWorld = calmWorld\<lparr>readFileResult := Inl ''permission denied''\<rparr>"

lemmas edit_defs = runEdit_def afterDefer_def afterRead_def afterReview_def runDeferred_def
  deferredRelease_def ExitWithError_def getEditor_def Let_def

lemmas run_preds = released_def scratchCreated_def reviewStarted_def setSecretInvoked_def
  committed_def

lemma runDeferred_released:
  "released (runDeferred w tempFile r) = (released r \<or> (\<forall>c. snd r \<noteq> Exited c))"
  by (cases r; cases "snd r")
     (auto simp: runDeferred_def deferredRelease_def released_def split: option.splits)

lemma afterDefer_not_released:
  "\<not> list_ex isSecureDelete trace \<Longrightarrow> \<not> released (afterDefer w n v e t trace)"
  by (auto simp: afterDefer_def afterRead_def afterReview_def ExitWithError_def released_def
        Let_def split: option.splits sum.splits)

lemma snd_runDeferred: "snd (runDeferred w t r) = snd r"
  by (cases "snd r") (auto simp: runDeferred_def)

lemma runEdit_after_create:
  assumes created: "scratchCreated w (runEdit w vaultName secretName)"
  obtains latestVersion tempFile trace where
    "\<not> list_ex isSecureDelete trace" and
    "runEdit w vaultName secretName =
       runDeferred w tempFile
         (afterDefer w secretName latestVersion (getEditor w) tempFile trace)"
proof -
  from created obtain tempFile where t: "createTempResult w = Inr tempFile"
    by (cases "createTempResult w") (auto simp: scratchCreated_def)
  from created have c: "newClientResult w = None"
    by (cases "newClientResult w")
       (auto simp: scratchCreated_def runEdit_def ExitWithError_def Let_def)
  from created c obtain versions where l: "listResult w = Inr versions"
    by (cases "listResult w")
       (auto simp: scratchCreated_def runEdit_def ExitWithError_def Let_def)
  from created c l obtain latestVersion rest where v: "versions = latestVersion # rest"
    by (cases versions)
       (auto simp: scratchCreated_def runEdit_def ExitWithError_def Let_def)
  let ?trace = "[CallNewClient (''https://'' @ vaultName @ ''.vault.azure.net/''),
                 CallListSecretVersions secretName,
                 CreateSecureTempFile (Value latestVersion)]"
  have "runEdit w vaultName secretName =
          runDeferred w tempFile
            (afterDefer w secretName latestVersion (getEditor w) tempFile ?trace)"
    using c l v t by (simp add: runEdit_def Let_def)
  moreover have "\<not> list_ex isSecureDelete ?trace"
    by simp
  ultimately show thesis
    using that by blast
qed

text \<open>After the scratch file has been created, the release runs exactly when the
  process does not end through \<open>os.Exit\<close>.\<close>

lemma runEdit_released_iff_not_exited:
  assumes "scratchCreated w (runEdit w vaultName secretName)"
  shows "released (runEdit w vaultName secretName) =
           (\<forall>c. snd (runEdit w vaultName secretName) \<noteq> Exited c)"
proof -
  from runEdit_after_create [OF assms] obtain latestVersion tempFile trace where
    clean: "\<not> list_ex isSecureDelete trace" and
    eq: "runEdit w vaultName secretName =
           runDeferred w tempFile
             (afterDefer w secretName latestVersion (getEditor w) tempFile trace)"
    by blast
  show ?thesis
    unfolding eq runDeferred_released snd_runDeferred
    using afterDefer_not_released [OF clean] by simp
qed

text \<open>
  Claim C1. Once the scratch file exists, its release (overwrite, then removal) is meant
  to run on every way out of \<open>runEdit\<close>. The release is a deferred call, and it does
  run when \<open>runEdit\<close> returns (normal completion, no change, review cancelled). The
  failures after the \<open>defer\<close> leave through \<open>root.ExitWithError\<close>, which calls
  \<open>os.Exit(1)\<close>: the process ends without running the deferred call. When the editor
  fails, and when the edited file cannot be read, the scratch file has been created and
  is never released.
\<close>

theorem runEdit_failure_exits_skip_release:
  "runEdit editorFailsWorld ''vault'' ''db-password'' =
     ([CallNewClient ''https://vault.vault.azure.net/'',
       CallListSecretVersions ''db-password'',
       CreateSecureTempFile (''secret1'' @ [newline]),
       Stdout (MsgEditing ''db-password'' ''01234567''),
       Stdout (MsgOpeningEditor ''vim''),
       OpenEditor ''vim'' ''/tmp/kv-secret-00112233445566778899aabbccddeeff.tmp'',
       Stderr (MsgError (EditorFailed ''exit status 1''))],
      Exited 1) \<and>
   scratchCreated editorFailsWorld (runEdit editorFailsWorld ''vault'' ''db-password'') \<and>
   \<not> released (runEdit editorFailsWorld ''vault'' ''db-password'') \<and>
   scratchCreated readFailsWorld (runEdit readFailsWorld ''vault'' ''db-password'') \<and>
   \<not> released (runEdit readFailsWorld ''vault'' ''db-password'')"
  by (simp add: edit_defs run_preds editorFailsWorld_def readFailsWorld_def calmWorld_def
      sampleVersion_def)

text \<open>
  Claim C2. When the content read back from the scratch file equals the original value,
  \<open>runEdit\<close> reports that nothing changed and returns: no review session is started
  (so no diff is computed), \<open>SetSecret\<close> is not invoked, and nothing is committed.
\<close>

theorem runEdit_no_change_short_circuits:
  assumes "newClientResult w = None"
    and "listResult w = Inr (latestVersion # rest)"
    and "8 \<le> length (Version latestVersion)"
    and "createTempResult w = Inr tempFile"
    and "openEditorResult w = None"
    and "readFileResult w = Inr x"
    and "x = Value latestVersion"
  shows "snd (runEdit w vaultName secretName) = Returned \<and>
         \<not> reviewStarted (runEdit w vaultName secretName) \<and>
         \<not> setSecretInvoked (runEdit w vaultName secretName) \<and>
         \<not> committed (runEdit w vaultName secretName) \<and>
         Stdout MsgNoChanges \<in> set (fst (runEdit w vaultName secretName))"
  using assms
  by (simp add: edit_defs run_preds split: option.splits)

theorem runEdit_no_change_short_circuits_witness:
  "snd (runEdit calmWorld ''vault'' ''db-password'') = Returned \<and>
   \<not> reviewStarted (runEdit calmWorld ''vault'' ''db-password'') \<and>
   \<not> setSecretInvoked (runEdit calmWorld ''vault'' ''db-password'') \<and>
   \<not> committed (runEdit calmWorld ''vault'' ''db-password'') \<and>
   Stdout MsgNoChanges \<in> set (fst (runEdit calmWorld ''vault'' ''db-password''))"
  using runEdit_no_change_short_circuits [of calmWorld sampleVersion "[]"
      "''/tmp/kv-secret-00112233445566778899aabbccddeeff.tmp''" "''secret1'' @ [newline]"
      "''vault''" "''db-password''"]
  by (simp add: calmWorld_def sampleVersion_def)

section \<open>Line wrapping (packages tui and difftui)\<close>

text \<open>
  Both packages carry the same function \<open>wrapLine\<close>, statement for statement. Its outer
  loop need not end, so the model counts its iterations against a supply of fuel; and
  the slice expression \<open>remaining[:breakPoint]\<close> panics when the bound is out of range.
\<close>

datatype 'a outcome = Done 'a | Panic | OutOfFuel

text \<open>The inner loop \<open>for i := width; i > width-20 && i > 0; i--\<close>: the value of
  \<open>breakPoint\<close> when it ends (the initial value \<open>width\<close> when no space is found).
  For \<open>width \<le> 0\<close> the test \<open>i > 0\<close> fails at once, whatever \<open>width-20\<close> is.\<close>

function findBreak :: "string \<Rightarrow> int \<Rightarrow> int \<Rightarrow> int" where
  "findBreak remaining width i =
     (if i > width - 20 \<and> i > 0
      then (if i < int (length remaining) \<and> remaining ! nat i = space then i
            else findBreak remaining width (i - 1))
      else width)"
  by pat_completeness auto
termination
  by (relation "measure (\<lambda>(remaining, width, i). nat i)") auto

declare findBreak.simps [simp del]

definition TrimLeft :: "string \<Rightarrow> string" where
  "TrimLeft s = dropWhile (\<lambda>c. c = space) s"

fun wrapLoop :: "nat \<Rightarrow> int \<Rightarrow> string \<Rightarrow> string list \<Rightarrow> string list outcome" where
  "wrapLoop 0 width remaining wrapped = OutOfFuel"
| "wrapLoop (Suc fuel) width remaining wrapped =
     (if \<not> int (length remaining) > 0 then Done wrapped
      else if int (length remaining) \<le> width then Done (wrapped @ [remaining])
      else
        (let found = findBreak remaining width width;
             breakPoint = (if found \<ge> int (length remaining) then width else found)
         in if breakPoint < 0 \<or> int (length remaining) < breakPoint then Panic
            else wrapLoop fuel width
                   (TrimLeft (drop (nat breakPoint) remaining))
                   (wrapped @ [take (nat breakPoint) remaining])))"

definition wrapLine :: "nat \<Rightarrow> string \<Rightarrow> int \<Rightarrow> string list outcome" where
  "wrapLine fuel line width =
     (if int (length line) \<le> width then Done [line]
      else wrapLoop fuel width line [])"

section \<open>Properties of line wrapping\<close>


lemma findBreak_nonpositive: "width \<le> 0 \<Longrightarrow> findBreak remaining width width = width"
  by (subst findBreak.simps) simp




text \<open>With width 0 the loop appends an empty segment and leaves \<open>remaining\<close> as it
  was, unless it starts with a space: it never ends.\<close>

lemma wrapLoop_zero_width_diverges:
  "remaining \<noteq> [] \<Longrightarrow> hd remaining \<noteq> space \<Longrightarrow> wrapLoop fuel 0 remaining wrapped = OutOfFuel"
proof (induction fuel arbitrary: wrapped)
  case 0
  then show ?case by simp
next
  case (Suc fuel)
  from Suc.prems have "TrimLeft remaining = remaining"
    by (cases remaining) (simp_all add: TrimLeft_def)
  with Suc show ?case
    by (simp add: findBreak_nonpositive Let_def)
qed

text \<open>With a negative width the first pass slices \<open>remaining[:width]\<close> and panics.\<close>

lemma wrapLoop_negative_width_panics:
  "width < 0 \<Longrightarrow> remaining \<noteq> [] \<Longrightarrow> wrapLoop (Suc fuel) width remaining wrapped = Panic"
  by (simp add: findBreak_nonpositive Let_def)

section \<open>The viewport of the bubbles library\<close>

text \<open>
  The panes of both sessions are \<open>viewport.Model\<close> values of the bubbles library, which
  the repository imports. The model keeps what the sessions read and write (the size,
  the vertical offset and the lines of the content) and follows the library's
  operations: the offset is always set through \<open>SetYOffset\<close>, which clamps it into
  the pane's own scroll range. Mouse events are not modelled: the programs are started
  without mouse support. \<open>SetContent\<close> also rewrites \<open>"\r\n"\<close> to \<open>"\n"\<close> before
  it splits the content; that changes no row count and is left out.
\<close>

record viewport =
  Width :: int
  Height :: int
  YOffset :: int
  lines :: "string list"

definition New_viewport :: "int \<Rightarrow> int \<Rightarrow> viewport" where
  "New_viewport w h = \<lparr>Width = w, Height = h, YOffset = 0, lines = []\<rparr>"

definition clamp :: "int \<Rightarrow> int \<Rightarrow> int \<Rightarrow> int" where
  "clamp v low high =
     (if high < low then min low (max high v) else min high (max low v))"

definition maxYOffset :: "viewport \<Rightarrow> int" where
  "maxYOffset v = max 0 (int (length (lines v)) - Height v)"

definition AtTop :: "viewport \<Rightarrow> bool" where
  "AtTop v = (YOffset v \<le> 0)"

definition AtBottom :: "viewport \<Rightarrow> bool" where
  "AtBottom v = (YOffset v \<ge> maxYOffset v)"

definition SetYOffset :: "int \<Rightarrow> viewport \<Rightarrow> viewport" where
  "SetYOffset n v = v\<lparr>YOffset := clamp n 0 (maxYOffset v)\<rparr>"


definition GotoBottom :: "viewport \<Rightarrow> viewport" where
  "GotoBottom v = SetYOffset (maxYOffset v) v"

definition SetContent :: "string \<Rightarrow> viewport \<Rightarrow> viewport" where
  "SetContent s v =
     (let v1 = v\<lparr>lines := splitOn newline s\<rparr>
      in if YOffset v1 > int (length (lines v1)) - 1 then GotoBottom v1 else v1)"

definition LineDown :: "int \<Rightarrow> viewport \<Rightarrow> viewport" where
  "LineDown n v =
     (if AtBottom v \<or> n = 0 \<or> length (lines v) = 0 then v
      else SetYOffset (YOffset v + n) v)"

definition LineUp :: "int \<Rightarrow> viewport \<Rightarrow> viewport" where
  "LineUp n v =
     (if AtTop v \<or> n = 0 \<or> length (lines v) = 0 then v
      else SetYOffset (YOffset v - n) v)"

definition quot :: "int \<Rightarrow> int \<Rightarrow> int" where
  \<comment> \<open>Go's integer division: the quotient is truncated toward zero.\<close>
  "quot a b = sgn a * sgn b * (\<bar>a\<bar> div \<bar>b\<bar>)"

definition ViewDown :: "viewport \<Rightarrow> viewport" where
  "ViewDown v = (if AtBottom v then v else LineDown (Height v) v)"

definition ViewUp :: "viewport \<Rightarrow> viewport" where
  "ViewUp v = (if AtTop v then v else LineUp (Height v) v)"

definition HalfViewDown :: "viewport \<Rightarrow> viewport" where
  "HalfViewDown v = (if AtBottom v then v else LineDown (quot (Height v) 2) v)"

definition HalfViewUp :: "viewport \<Rightarrow> viewport" where
  "HalfViewUp v = (if AtTop v then v else LineUp (quot (Height v) 2) v)"

text \<open>The messages of the terminal event loop that the sessions handle.\<close>

datatype msg = KeyMsg string | WindowSizeMsg int int

datatype cmd = NoCmd | Quit

text \<open>\<open>viewport.Model.Update\<close> with the library's default key map.\<close>

definition Update_viewport :: "msg \<Rightarrow> viewport \<Rightarrow> viewport" where
  "Update_viewport m v =
     (case m of
        KeyMsg k \<Rightarrow>
          (if k \<in> set [''pgdown'', '' '', ''f''] then ViewDown v
           else if k \<in> set [''pgup'', ''b''] then ViewUp v
           else if k \<in> set [''d'', ''ctrl+d''] then HalfViewDown v
           else if k \<in> set [''u'', ''ctrl+u''] then HalfViewUp v
           else if k \<in> set [''down'', ''j''] then LineDown 1 v
           else if k \<in> set [''up'', ''k''] then LineUp 1 v
           else v)
      | WindowSizeMsg w h \<Rightarrow> v)"

section \<open>Rendering the diff panes (package difftui)\<close>

text \<open>
  The styles only colour and pad; colours are left out. \<open>lineNumStyle\<close> pads its
  argument on the left to four columns. \<open>showInt\<close> is \<open>fmt.Sprintf("%d", n)\<close>.
\<close>

definition lineNumStyle :: "string \<Rightarrow> string" where
  "lineNumStyle s = replicate (4 - length s) space @ s"

definition removedLineStyle :: "string \<Rightarrow> string" where
  "removedLineStyle s = s"

definition addedLineStyle :: "string \<Rightarrow> string" where
  "addedLineStyle s = s"

definition unchangedLineStyle :: "string \<Rightarrow> string" where
  "unchangedLineStyle s = s"

definition bar :: string where
  \<comment> \<open>a space, the box-drawing vertical line (three bytes in UTF-8), a space\<close>
  "bar = [space, CHR 0xE2, CHR 0x94, CHR 0x82, space]"

definition digit :: "nat \<Rightarrow> char" where
  "digit d = char_of (48 + d)"

function showNat :: "nat \<Rightarrow> string" where
  "showNat n = (if n < 10 then [digit n] else showNat (n div 10) @ [digit (n mod 10)])"
  by pat_completeness auto
termination
  by (relation "measure (\<lambda>n. n)") auto

declare showNat.simps [simp del]

definition showInt :: "int \<Rightarrow> string" where
  "showInt i = (if i < 0 then CHR ''-'' # showNat (nat (- i)) else showNat (nat i))"

definition TrimRight :: "string \<Rightarrow> string" where
  "TrimRight s = rev (dropWhile (\<lambda>c. c = newline) (rev s))"

definition gutterMark :: "bool \<Rightarrow> diffLine \<Rightarrow> string" where
  "gutterMark isLeft line =
     (if isLeft \<and> isDiff line then removedLineStyle '' - ''
      else if \<not> isLeft \<and> isAdded line then addedLineStyle '' + ''
      else if \<not> isLeft \<and> isDiff line then addedLineStyle '' ~ ''
      else bar)"

definition styleContent :: "bool \<Rightarrow> diffLine \<Rightarrow> string \<Rightarrow> string" where
  "styleContent isLeft line wrappedContent =
     (if isDiff line \<and> isLeft then removedLineStyle wrappedContent
      else if (isDiff line \<or> isAdded line) \<and> \<not> isLeft then addedLineStyle wrappedContent
      else unchangedLineStyle wrappedContent)"

text \<open>The inner loop of \<open>renderDiffLines\<close> over the wrapped segments of one line,
  from segment \<open>i\<close> on.\<close>

fun renderWrapped :: "bool \<Rightarrow> diffLine \<Rightarrow> nat \<Rightarrow> string list \<Rightarrow> string" where
  "renderWrapped isLeft line i [] = ''''"
| "renderWrapped isLeft line i (wrappedContent # rest) =
     (if i = 0 then lineNumStyle (showInt (lineNum line)) @ gutterMark isLeft line
      else lineNumStyle '''' @ ''   '')
     @ styleContent isLeft line wrappedContent @ [newline]
     @ renderWrapped isLeft line (i + 1) rest"

fun renderDiffLines_loop ::
  "nat \<Rightarrow> diffLine list \<Rightarrow> int \<Rightarrow> bool \<Rightarrow> string \<Rightarrow> string outcome" where
  "renderDiffLines_loop fuel [] width isLeft result = Done result"
| "renderDiffLines_loop fuel (line # rest) width isLeft result =
     (if lineNum line = 0
      then renderDiffLines_loop fuel rest width isLeft
             (result @ lineNumStyle ''    '' @ bar @ [newline])
      else
        (case wrapLine fuel (content line) width of
           Done wrappedLines \<Rightarrow>
             renderDiffLines_loop fuel rest width isLeft
               (result @ renderWrapped isLeft line 0 wrappedLines)
         | Panic \<Rightarrow> Panic
         | OutOfFuel \<Rightarrow> OutOfFuel))"

definition renderDiffLines :: "nat \<Rightarrow> diffLine list \<Rightarrow> int \<Rightarrow> bool \<Rightarrow> string outcome" where
  "renderDiffLines fuel diffLines width isLeft =
     (case renderDiffLines_loop fuel diffLines width isLeft '''' of
        Done result \<Rightarrow> Done (TrimRight result)
      | Panic \<Rightarrow> Panic
      | OutOfFuel \<Rightarrow> OutOfFuel)"


section \<open>Rendering the browse pane (package tui)\<close>

text \<open>\<open>wrapTextWithLineNumbers\<close>: the inner loop over the wrapped segments of one
  line, and the loop over the lines with the running line number.\<close>

fun numberWrapped :: "int \<Rightarrow> nat \<Rightarrow> string list \<Rightarrow> string" where
  "numberWrapped lineNo i [] = ''''"
| "numberWrapped lineNo i (wrappedLine # rest) =
     (if i = 0 then lineNumStyle (showInt lineNo) @ bar
      else lineNumStyle '''' @ bar)
     @ wrappedLine @ [newline]
     @ numberWrapped lineNo (i + 1) rest"

fun wrapText_loop :: "nat \<Rightarrow> string list \<Rightarrow> int \<Rightarrow> int \<Rightarrow> string \<Rightarrow> string outcome" where
  "wrapText_loop fuel [] width lineNo result = Done result"
| "wrapText_loop fuel (line # rest) width lineNo result =
     (if line = ''''
      then wrapText_loop fuel rest width (lineNo + 1)
             (result @ lineNumStyle (showInt lineNo) @ bar @ [newline])
      else
        (case wrapLine fuel line width of
           Done wrappedLines \<Rightarrow>
             wrapText_loop fuel rest width (lineNo + 1)
               (result @ numberWrapped lineNo 0 wrappedLines)
         | Panic \<Rightarrow> Panic
         | OutOfFuel \<Rightarrow> OutOfFuel))"

definition wrapTextWithLineNumbers :: "nat \<Rightarrow> string \<Rightarrow> int \<Rightarrow> string outcome" where
  "wrapTextWithLineNumbers fuel text width =
     (let width1 = (if width \<le> 0 then 40 else width)
      in case wrapText_loop fuel (splitOn newline text) width1 1 '''' of
           Done result \<Rightarrow> Done (TrimRight result)
         | Panic \<Rightarrow> Panic
         | OutOfFuel \<Rightarrow> OutOfFuel)"


section \<open>The browse session (package tui)\<close>

record BrowseModel =
  versions :: "SecretVersion list"
  browseSecretName :: string
  currentIdx :: int
  viewport :: viewport
  browseReady :: bool
  browseWidth :: int
  browseHeight :: int








section \<open>The review session (package difftui)\<close>

record Model =
  oldValue :: string
  newValue :: string
  secretName :: string
  leftViewport :: viewport
  rightViewport :: viewport
  ready :: bool
  width :: int
  height :: int
  confirmed :: bool
  cancelled :: bool

definition NewModel :: "string \<Rightarrow> string \<Rightarrow> string \<Rightarrow> Model" where
  "NewModel old new name =
     \<lparr>oldValue = old, newValue = new, secretName = name,
      leftViewport = New_viewport 0 0, rightViewport = New_viewport 0 0,
      ready = False, width = 0, height = 0, confirmed = False, cancelled = False\<rparr>"

definition updateViewportContent :: "nat \<Rightarrow> Model \<Rightarrow> Model outcome" where
  "updateViewportContent fuel m =
     (let maxWidth = Width (leftViewport m) - 10;
          oldLines = splitOn newline (oldValue m);
          newLines = splitOn newline (newValue m);
          diffs = computeDiff oldLines newLines
      in case renderDiffLines fuel (fst diffs) maxWidth True of
           Panic \<Rightarrow> Panic
         | OutOfFuel \<Rightarrow> OutOfFuel
         | Done oldContent \<Rightarrow>
             (case renderDiffLines fuel (snd diffs) maxWidth False of
                Panic \<Rightarrow> Panic
              | OutOfFuel \<Rightarrow> OutOfFuel
              | Done newContent \<Rightarrow>
                  Done (m\<lparr>leftViewport := SetContent oldContent (leftViewport m),
                          rightViewport := SetContent newContent (rightViewport m)\<rparr>)))"

definition scrollKeys :: "string list" where
  "scrollKeys = [''up'', ''k'', ''down'', ''j'', ''pgup'', ''ctrl+b'', ''pgdown'', ''ctrl+f'']"

definition Update :: "nat \<Rightarrow> msg \<Rightarrow> Model \<Rightarrow> (Model \<times> cmd) outcome" where
  "Update fuel message m =
     (case message of
        KeyMsg k \<Rightarrow>
          (if k \<in> set [''esc'', ''q'', ''n'', ''N''] then Done (m\<lparr>cancelled := True\<rparr>, Quit)
           else if k \<in> set [''y'', ''Y'', ''enter''] then Done (m\<lparr>confirmed := True\<rparr>, Quit)
           else if k \<in> set scrollKeys then
             (let left = Update_viewport message (leftViewport m)
              in Done (m\<lparr>leftViewport := left,
                          rightViewport := SetYOffset (YOffset left) (rightViewport m)\<rparr>,
                       NoCmd))
           else Done (m, NoCmd))
      | WindowSizeMsg w h \<Rightarrow>
          (let m1 = m\<lparr>width := w, height := h\<rparr>;
               headerHeight = 3;
               footerHeight = 3;
               viewportWidth = quot w 2 - 4;
               viewportHeight = h - headerHeight - footerHeight;
               m2 = (if \<not> ready m1
                     then m1\<lparr>leftViewport := New_viewport viewportWidth viewportHeight,
                             rightViewport := New_viewport viewportWidth viewportHeight,
                             ready := True\<rparr>
                     else m1\<lparr>leftViewport :=
                               (leftViewport m1)\<lparr>Width := viewportWidth,
                                                  Height := viewportHeight\<rparr>,
                             rightViewport :=
                               (rightViewport m1)\<lparr>Width := viewportWidth,
                                                   Height := viewportHeight\<rparr>\<rparr>)
           in case updateViewportContent fuel m2 of
                Panic \<Rightarrow> Panic
              | OutOfFuel \<Rightarrow> OutOfFuel
              | Done m3 \<Rightarrow> Done (m3, NoCmd)))"

text \<open>The event loop: messages are handled one at a time until one asks to quit.\<close>

fun runSession :: "nat \<Rightarrow> msg list \<Rightarrow> Model \<Rightarrow> Model outcome" where
  "runSession fuel [] m = Done m"
| "runSession fuel (message # rest) m =
     (case Update fuel message m of
        Panic \<Rightarrow> Panic
      | OutOfFuel \<Rightarrow> OutOfFuel
      | Done (m1, Quit) \<Rightarrow> Done m1
      | Done (m1, NoCmd) \<Rightarrow> runSession fuel rest m1)"


section \<open>Properties of the review session\<close>


lemmas render_defs = renderDiffLines_def wrapLine_def lineNumStyle_def removedLineStyle_def
  addedLineStyle_def unchangedLineStyle_def bar_def showInt_def TrimRight_def gutterMark_def
  styleContent_def TrimLeft_def space_def digit_def

text \<open>A review session in a terminal of 32 columns and 8 rows, for an old value that wraps
  into three rows and a new value of one row.\<close>

definition sampleReview :: Model where
  "sampleReview =
     \<lparr>oldValue = ''aaaaa'', newValue = ''b'', secretName = ''db-password'',
      leftViewport =
        \<lparr>Width = 12, Height = 2, YOffset = 0,
         lines = [''   1 - aa'', ''       aa'', ''       a'']\<rparr>,
      rightViewport = \<lparr>Width = 12, Height = 2, YOffset = 0, lines = [''   1 ~ b'']\<rparr>,
      ready = True, width = 32, height = 8, confirmed = False, cancelled = False\<rparr>"

lemma sampleReview_reached:
  "runSession 10 [WindowSizeMsg 32 8] (NewModel ''aaaaa'' ''b'' ''db-password'') = Done sampleReview"
  by code_simp









text \<open>
  Claim C6. For a width of zero or less the wrapping is meant to fall back to width 40
  and return. \<open>wrapTextWithLineNumbers\<close> of the browse pane does so before it calls
  \<open>wrapLine\<close>. \<open>renderDiffLines\<close> of the diff panes passes the width to \<open>wrapLine\<close> as it
  is, and \<open>updateViewportContent\<close> computes it as the pane width less 10, that is half
  the terminal width less 14. In a terminal of 28 columns the width is 0 and wrapping
  the line \<open>ab\<close> never ends; in a terminal of 20 columns the width is -4 and wrapping
  the line panics.
\<close>

theorem diff_pane_wrap_nonpositive_width_fails:
  "(\<forall>fuel. wrapLine fuel ''ab'' 0 = OutOfFuel) \<and>
   (\<forall>fuel. wrapLine (Suc fuel) ''ab'' (- 4) = Panic) \<and>
   (\<forall>fuel. Update fuel (WindowSizeMsg 28 24) (NewModel ''ab'' ''cd'' ''db-password'')
      = OutOfFuel) \<and>
   (\<forall>fuel. Update (Suc fuel) (WindowSizeMsg 20 24) (NewModel ''ab'' ''cd'' ''db-password'')
      = Panic)"
proof -
  have loop: "wrapLoop fuel 0 ''ab'' [] = OutOfFuel" for fuel
    by (rule wrapLoop_zero_width_diverges) (simp_all add: space_def)
  have panic: "wrapLoop (Suc fuel) (- 4) ''ab'' [] = Panic" for fuel
    by (rule wrapLoop_negative_width_panics) simp_all
  have a: "wrapLine fuel ''ab'' 0 = OutOfFuel" for fuel
    by (simp add: wrapLine_def loop)
  have b: "wrapLine (Suc fuel) ''ab'' (- 4) = Panic" for fuel
    by (simp add: wrapLine_def panic del: wrapLoop.simps)
  have c: "Update fuel (WindowSizeMsg 28 24) (NewModel ''ab'' ''cd'' ''db-password'')
             = OutOfFuel" for fuel
    by (simp add: Update_def NewModel_def updateViewportContent_def New_viewport_def quot_def
        renderDiffLines_def diff_eval a)
  have d: "Update (Suc fuel) (WindowSizeMsg 20 24) (NewModel ''ab'' ''cd'' ''db-password'')
             = Panic" for fuel
    by (simp add: Update_def NewModel_def updateViewportContent_def New_viewport_def quot_def
        renderDiffLines_def diff_eval b del: wrapLoop.simps)
  from a b c d show ?thesis by blast
qed

section \<open>Properties of the browse session\<close>




lemma wrapTextWithLineNumbers_fallback:
  "w \<le> 0 \<Longrightarrow> wrapTextWithLineNumbers fuel text w = wrapTextWithLineNumbers fuel text 40"
  by (simp add: wrapTextWithLineNumbers_def)
















section \<open>Ordering the fetched versions (package keyvault)\<close>










section \<open>Properties of the ordering\<close>












end
